theory Spec2Isabelle
  imports Main
begin

section \<open>Python values and exceptions\<close>

text \<open>
  The values that flow through \<^verbatim>\<open>src/bin/main.py\<close>: what \<^verbatim>\<open>response.json()\<close>
  yields (None, booleans, integers, strings, lists, dictionaries with string keys) and
  the tuple that \<^verbatim>\<open>find_page_by_title\<close> returns. Numbers with a fractional part
  are not represented.
\<close>

datatype pyval =
    PNone
  | PBool bool
  | PInt int
  | PStr string
  | PList "pyval list"
  | PTuple "pyval list"
  | PDict "(string \<times> pyval) list"

text \<open>
  The exceptions the script can meet. \<open>JSONDecodeError\<close> is what \<^verbatim>\<open>response.json()\<close>
  raises on a body that is not JSON; in requests 2.27 and later it is a subclass of
  \<^verbatim>\<open>RequestException\<close>, which is how \<open>is_request_exception\<close> classifies it.
  \<open>SystemExit n\<close> is \<^verbatim>\<open>sys.exit(n)\<close>.
\<close>

datatype exn =
    RequestException string
  | JSONDecodeError string
  | TypeError
  | KeyError pyval
  | IndexError
  | AttributeError
  | OSError
  | UnicodeDecodeError
  | SystemExit int

fun is_request_exception :: "exn \<Rightarrow> bool" where
  "is_request_exception (RequestException _) = True"
| "is_request_exception (JSONDecodeError _) = True"
| "is_request_exception _ = False"

fun exn_str :: "exn \<Rightarrow> string" where
  "exn_str (RequestException m) = m"
| "exn_str (JSONDecodeError m) = m"
| "exn_str _ = []"

text \<open>Truthiness, as \<^verbatim>\<open>if v:\<close> tests it.\<close>

fun truthy :: "pyval \<Rightarrow> bool" where
  "truthy PNone = False"
| "truthy (PBool b) = b"
| "truthy (PInt n) = (n \<noteq> 0)"
| "truthy (PStr s) = (s \<noteq> [])"
| "truthy (PList xs) = (xs \<noteq> [])"
| "truthy (PTuple xs) = (xs \<noteq> [])"
| "truthy (PDict d) = (d \<noteq> [])"

text \<open>
  \<^verbatim>\<open>v[k]\<close> with a string key \<open>k\<close>. Only a dictionary accepts it; a tuple, a list
  and a string raise \<^verbatim>\<open>TypeError\<close> (indices must be integers), and None, booleans
  and integers are not subscriptable at all.
\<close>

fun subscript_str :: "pyval \<Rightarrow> string \<Rightarrow> exn + pyval" where
  "subscript_str (PDict d) k =
     (case map_of d k of None \<Rightarrow> Inl (KeyError (PStr k)) | Some v \<Rightarrow> Inr v)"
| "subscript_str _ k = Inl TypeError"

text \<open>\<^verbatim>\<open>v[0]\<close>.\<close>

fun subscript_0 :: "pyval \<Rightarrow> exn + pyval" where
  "subscript_0 (PList xs) = (case xs of [] \<Rightarrow> Inl IndexError | x # _ \<Rightarrow> Inr x)"
| "subscript_0 (PTuple xs) = (case xs of [] \<Rightarrow> Inl IndexError | x # _ \<Rightarrow> Inr x)"
| "subscript_0 (PStr s) = (case s of [] \<Rightarrow> Inl IndexError | c # _ \<Rightarrow> Inr (PStr [c]))"
| "subscript_0 (PDict d) = Inl (KeyError (PInt 0))"
| "subscript_0 _ = Inl TypeError"

text \<open>\<^verbatim>\<open>data.get(k)\<close>: a method of dictionaries only.\<close>

fun dict_get :: "pyval \<Rightarrow> string \<Rightarrow> exn + pyval" where
  "dict_get (PDict d) k = (case map_of d k of None \<Rightarrow> Inr PNone | Some v \<Rightarrow> Inr v)"
| "dict_get _ k = Inl AttributeError"

text \<open>\<^verbatim>\<open>v + 1\<close>.\<close>

fun add_one :: "pyval \<Rightarrow> exn + pyval" where
  "add_one (PInt n) = Inr (PInt (n + 1))"
| "add_one (PBool b) = Inr (PInt ((if b then 1 else 0) + 1))"
| "add_one _ = Inl TypeError"

text \<open>\<^verbatim>\<open>s + v\<close> for a string \<open>s\<close>: concatenation, defined between strings only.\<close>

fun str_concat :: "string \<Rightarrow> pyval \<Rightarrow> exn + string" where
  "str_concat s (PStr t) = Inr (s @ t)"
| "str_concat s _ = Inl TypeError"

text \<open>\<^verbatim>\<open>s != v\<close> for a string \<open>s\<close>.\<close>

fun str_differs :: "string \<Rightarrow> pyval \<Rightarrow> bool" where
  "str_differs s (PStr t) = (s \<noteq> t)"
| "str_differs s _ = True"

section \<open>Strings and paths\<close>

definition endswith :: "string \<Rightarrow> string \<Rightarrow> bool" where
  "endswith s suf = (length suf \<le> length s \<and> drop (length s - length suf) s = suf)"

text \<open>\<^verbatim>\<open>s.split(c)\<close> for a one-character separator: every field, empty ones too.\<close>

fun split_on :: "char \<Rightarrow> string \<Rightarrow> string list" where
  "split_on c [] = [] # []"
| "split_on c (x # xs) =
     (if x = c then [] # split_on c xs
      else (case split_on c xs of [] \<Rightarrow> [x] # [] | w # ws \<Rightarrow> (x # w) # ws))"

text \<open>\<^verbatim>\<open>os.path\<close> on POSIX.\<close>

definition path_join :: "string \<Rightarrow> string \<Rightarrow> string" where
  "path_join a b =
     (if b \<noteq> [] \<and> hd b = CHR ''/'' then b
      else if a = [] \<or> last a = CHR ''/'' then a @ b
      else a @ ''/'' @ b)"

definition basename :: "string \<Rightarrow> string" where
  "basename p = rev (takeWhile (\<lambda>c. c \<noteq> CHR ''/'') (rev p))"

text \<open>
  \<^verbatim>\<open>os.path.splitext(p)[0]\<close> for a path without separator: cut at the last dot,
  unless only dots precede it.
\<close>

definition splitext_root :: "string \<Rightarrow> string" where
  "splitext_root p =
     (let ext = takeWhile (\<lambda>c. c \<noteq> CHR ''.'') (rev p);
          stem = take (length p - length ext - 1) p
      in if length ext < length p \<and> filter (\<lambda>c. c \<noteq> CHR ''.'') stem \<noteq> []
         then stem else p)"

section \<open>The world the script runs in\<close>

text \<open>
  An f-string is a list of pieces: literal text, and values put through \<^verbatim>\<open>str()\<close>.
\<close>

datatype piece = Lit string | Val pyval

datatype meth = GET | PUT | POST

record request =
  meth :: meth
  url :: "piece list"
  params :: "(string \<times> string) list"
  json_body :: "pyval option"
  auth :: "string \<times> string"
  headers :: "(string \<times> string) list"
  timeout :: nat

text \<open>
  What the run does to the outside, in order: lines printed, the final
  \<^verbatim>\<open>print(links)\<close>, HTTP requests sent, files opened, directory walks started.
\<close>

datatype event =
    Print "piece list"
  | PrintLinks "string list"
  | Http request
  | ReadFile string
  | Walk string

record response =
  status_code :: int
  resp_json :: "string + pyval"

datatype read_failure = NotReadable | NotUtf8

text \<open>
  The collaborators, as the script meets them: the process environment, \<^verbatim>\<open>os.walk\<close>,
  opening and reading a file, the markdown renderer, and the remote service. The service
  answers a request given everything that happened before; \<open>Inl m\<close> is a transport
  failure, a \<^verbatim>\<open>RequestException\<close> with message \<open>m\<close>.
\<close>

record world =
  environ :: "string \<rightharpoonup> string"
  os_walk :: "string \<Rightarrow> (string \<times> string list \<times> string list) list"
  read_text :: "string \<Rightarrow> read_failure + string"
  render :: "string \<Rightarrow> string"
  http :: "event list \<Rightarrow> request \<Rightarrow> string + response"

section \<open>Effects: a trace of events, and exceptions\<close>

type_synonym 'a prog = "event list \<Rightarrow> (exn + 'a) \<times> event list"

definition ret :: "'a \<Rightarrow> 'a prog" where
  "ret x tr = (Inr x, tr)"

definition raise :: "exn \<Rightarrow> 'a prog" where
  "raise e tr = (Inl e, tr)"

definition lift :: "exn + 'a \<Rightarrow> 'a prog" where
  "lift r tr = (r, tr)"

definition emit :: "event \<Rightarrow> unit prog" where
  "emit ev tr = (Inr (), tr @ [ev])"

definition bind :: "'a prog \<Rightarrow> ('a \<Rightarrow> 'b prog) \<Rightarrow> 'b prog" where
  "bind m f tr = (case m tr of (Inl e, tr') \<Rightarrow> (Inl e, tr') | (Inr x, tr') \<Rightarrow> f x tr')"

text \<open>\<^verbatim>\<open>try: m except RequestException as e: h(e)\<close>.\<close>

definition except_request :: "'a prog \<Rightarrow> (exn \<Rightarrow> 'a prog) \<Rightarrow> 'a prog" where
  "except_request m h tr =
     (case m tr of
        (Inl e, tr') \<Rightarrow> (if is_request_exception e then h e tr' else (Inl e, tr'))
      | (Inr x, tr') \<Rightarrow> (Inr x, tr'))"

text \<open>\<^verbatim>\<open>d[k]\<close> on \<^verbatim>\<open>envs\<close> and on \<^verbatim>\<open>os.environ\<close>.\<close>

definition item :: "(string \<rightharpoonup> string) \<Rightarrow> string \<Rightarrow> exn + string" where
  "item d k = (case d k of None \<Rightarrow> Inl (KeyError (PStr k)) | Some v \<Rightarrow> Inr v)"

text \<open>The exit status of the process.\<close>

fun exit_code :: "exn + 'a \<Rightarrow> int" where
  "exit_code (Inr _) = 0"
| "exit_code (Inl (SystemExit n)) = n"
| "exit_code (Inl _) = 1"

section \<open>load_environment_variables\<close>

definition env_var_names :: "string list" where
  "env_var_names = [''cloud'', ''user'', ''token'', ''parent_page_id'', ''space_id'']"

text \<open>
  The loop over \<^verbatim>\<open>env_var_names\<close>. The source stores \<^verbatim>\<open>os.environ.get(var_name)\<close>
  and then tests it; a value that fails the test ends the process, so the dictionary
  only ever holds strings when it is used.
\<close>

fun load_required ::
  "(string \<rightharpoonup> string) \<Rightarrow> string list \<Rightarrow> (string \<rightharpoonup> string) \<Rightarrow> (string \<rightharpoonup> string) prog" where
  "load_required env [] envs = ret envs"
| "load_required env (var_name # rest) envs =
     (case env var_name of
        None \<Rightarrow>
          bind (emit (Print [Lit ''Missing value for '', Lit var_name]))
            (\<lambda>_. raise (SystemExit 1))
      | Some v \<Rightarrow>
          if v = [] then
            bind (emit (Print [Lit ''Missing value for '', Lit var_name]))
              (\<lambda>_. raise (SystemExit 1))
          else load_required env rest (envs(var_name \<mapsto> v)))"

definition copy_optional ::
  "(string \<rightharpoonup> string) \<Rightarrow> string \<Rightarrow> (string \<rightharpoonup> string) \<Rightarrow> (string \<rightharpoonup> string)" where
  "copy_optional env k envs = (case env k of None \<Rightarrow> envs | Some v \<Rightarrow> envs(k \<mapsto> v))"

definition load_environment_variables :: "world \<Rightarrow> (string \<rightharpoonup> string) prog" where
  "load_environment_variables w =
     bind (load_required (environ w) env_var_names Map.empty)
       (\<lambda>envs. ret (copy_optional (environ w) ''exclude_files''
                  (copy_optional (environ w) ''input_md_directory''
                    (copy_optional (environ w) ''input_file'' envs))))"

section \<open>find_page_by_title\<close>

definition http_call :: "world \<Rightarrow> request \<Rightarrow> response prog" where
  "http_call w req tr =
     (case http w tr req of
        Inl m \<Rightarrow> (Inl (RequestException m), tr @ [Http req])
      | Inr r \<Rightarrow> (Inr r, tr @ [Http req]))"

text \<open>\<^verbatim>\<open>response.json()\<close>.\<close>

definition json :: "response \<Rightarrow> pyval prog" where
  "json r = (case resp_json r of Inl m \<Rightarrow> raise (JSONDecodeError m) | Inr v \<Rightarrow> ret v)"

definition lookup_request :: "string \<Rightarrow> string \<Rightarrow> string \<Rightarrow> string \<Rightarrow> request" where
  "lookup_request cloud user token page_title =
     \<lparr>meth = GET,
      url = [Lit ''https://'', Lit cloud, Lit ''.atlassian.net/wiki/api/v2/pages''],
      params = [(''title'', page_title)],
      json_body = None,
      auth = (user, token),
      headers = [(''Accept'', ''application/json'')],
      timeout = 10\<rparr>"

definition find_page_by_title :: "world \<Rightarrow> string \<Rightarrow> (string \<rightharpoonup> string) \<Rightarrow> pyval prog" where
  "find_page_by_title w page_title envs =
     bind (lift (item envs ''cloud'')) (\<lambda>cloud.
     bind (lift (item envs ''user'')) (\<lambda>user.
     bind (lift (item envs ''token'')) (\<lambda>token.
     bind (http_call w (lookup_request cloud user token page_title)) (\<lambda>response.
       if status_code response = 200 then
         bind (json response) (\<lambda>data.
         bind (lift (dict_get data ''results'')) (\<lambda>results.
           if truthy results then
             bind (lift (subscript_str data ''results'')) (\<lambda>rs.
             bind (lift (subscript_0 rs)) (\<lambda>r0.
             bind (lift (subscript_str r0 ''id'')) (\<lambda>page_id.
             bind (lift (subscript_str r0 ''version'')) (\<lambda>version.
             bind (lift (subscript_str version ''number'')) (\<lambda>version_number.
             bind (lift (subscript_str r0 ''body'')) (\<lambda>body.
             bind (lift (subscript_str body ''storage'')) (\<lambda>existing_content.
               ret (PTuple [page_id, version_number, existing_content]))))))))
           else ret (PTuple [PNone, PNone])))
       else ret (PTuple [PNone, PNone])))))"

section \<open>process_file\<close>

definition page_title_of :: "string \<Rightarrow> string" where
  "page_title_of md_file = splitext_root (basename md_file)"

definition open_read :: "world \<Rightarrow> string \<Rightarrow> string prog" where
  "open_read w md_file =
     bind (emit (ReadFile md_file)) (\<lambda>_.
       case read_text w md_file of
         Inl NotReadable \<Rightarrow> raise OSError
       | Inl NotUtf8 \<Rightarrow> raise UnicodeDecodeError
       | Inr md \<Rightarrow> ret md)"

definition body_of :: "string \<Rightarrow> pyval" where
  "body_of html = PDict [(''value'', PStr html), (''representation'', PStr ''storage'')]"

definition update_request ::
  "string \<Rightarrow> string \<Rightarrow> string \<Rightarrow> pyval \<Rightarrow> pyval \<Rightarrow> string \<Rightarrow> string \<Rightarrow> request" where
  "update_request cloud user token page_id new_version page_title html =
     \<lparr>meth = PUT,
      url = [Lit ''https://'', Lit cloud, Lit ''.atlassian.net/wiki/api/v2/pages/'', Val page_id],
      params = [],
      json_body = Some (PDict
        [(''id'', page_id),
         (''status'', PStr ''current''),
         (''version'', PDict [(''number'', new_version)]),
         (''title'', PStr page_title),
         (''body'', body_of html)]),
      auth = (user, token),
      headers = [(''Content-Type'', ''application/json'')],
      timeout = 10\<rparr>"

definition create_request ::
  "string \<Rightarrow> string \<Rightarrow> string \<Rightarrow> string \<Rightarrow> string \<Rightarrow> string \<Rightarrow> string \<Rightarrow> request" where
  "create_request cloud user token space_id parent_page_id page_title html =
     \<lparr>meth = POST,
      url = [Lit ''https://'', Lit cloud, Lit ''.atlassian.net/wiki/api/v2/pages''],
      params = [],
      json_body = Some (PDict
        [(''spaceId'', PStr space_id),
         (''status'', PStr ''current''),
         (''title'', PStr page_title),
         (''parentId'', PStr parent_page_id),
         (''body'', body_of html)]),
      auth = (user, token),
      headers = [(''Accept'', ''application/json''), (''Content-Type'', ''application/json'')],
      timeout = 10\<rparr>"

text \<open>
  \<^verbatim>\<open>"https://{cloud}.atlassian.net/wiki" + response.json()["_links"]["webui"]\<close>;
  the f-string is built before the response is decoded.
\<close>

definition web_link :: "(string \<rightharpoonup> string) \<Rightarrow> response \<Rightarrow> string prog" where
  "web_link envs r =
     bind (lift (item envs ''cloud'')) (\<lambda>cloud.
     bind (json r) (\<lambda>data.
     bind (lift (subscript_str data ''_links'')) (\<lambda>ls.
     bind (lift (subscript_str ls ''webui'')) (\<lambda>webui.
       lift (str_concat (''https://'' @ cloud @ ''.atlassian.net/wiki'') webui)))))"

text \<open>The branch taken when \<^verbatim>\<open>page_info["page_id"]\<close> is true.\<close>

definition update_page ::
  "world \<Rightarrow> (string \<rightharpoonup> string) \<Rightarrow> pyval \<Rightarrow> pyval \<Rightarrow> string \<Rightarrow> string \<Rightarrow> string list
     \<Rightarrow> string list prog" where
  "update_page w envs page_info new_version page_title html links =
     bind (lift (subscript_str page_info ''existing_content'')) (\<lambda>existing_content.
       if str_differs html existing_content then
         bind (lift (item envs ''cloud'')) (\<lambda>cloud.
         bind (lift (subscript_str page_info ''page_id'')) (\<lambda>page_id.
         bind (lift (item envs ''user'')) (\<lambda>user.
         bind (lift (item envs ''token'')) (\<lambda>token.
         bind (http_call w
                 (update_request cloud user token page_id new_version page_title html))
           (\<lambda>update_response.
             if status_code update_response = 200 then
               bind (web_link envs update_response) (\<lambda>updated_link.
               bind (emit (Print [Lit page_title,
                       Lit '': Content update successful. New version: '', Val new_version]))
                 (\<lambda>_. ret (links @ [page_title @ '': '' @ updated_link])))
             else
               bind (emit (Print [Lit page_title, Lit '': Failed. HTTP status code: '',
                       Val (PInt (status_code update_response))]))
                 (\<lambda>_. ret links))))))
       else
         bind (emit (Print [Lit page_title, Lit '': Identical content, no update required.'']))
           (\<lambda>_. ret links))"

text \<open>The branch taken when \<^verbatim>\<open>page_info["page_id"]\<close> is false.\<close>

definition create_page ::
  "world \<Rightarrow> (string \<rightharpoonup> string) \<Rightarrow> string \<Rightarrow> string \<Rightarrow> string list \<Rightarrow> string list prog" where
  "create_page w envs page_title html links =
     bind (lift (item envs ''cloud'')) (\<lambda>cloud.
     bind (lift (item envs ''space_id'')) (\<lambda>space_id.
     bind (lift (item envs ''parent_page_id'')) (\<lambda>parent_page_id.
     bind (lift (item envs ''user'')) (\<lambda>user.
     bind (lift (item envs ''token'')) (\<lambda>token.
     bind (http_call w
             (create_request cloud user token space_id parent_page_id page_title html))
       (\<lambda>response.
         if status_code response = 200 then
           bind (web_link envs response) (\<lambda>link.
           bind (emit (Print [Lit page_title, Lit '': Content upload successful.'']))
             (\<lambda>_. ret (links @ [page_title @ '': '' @ link])))
         else
           bind (emit (Print [Lit page_title, Lit '': Failed. HTTP status code: '',
                   Val (PInt (status_code response))]))
             (\<lambda>_. ret links)))))))"

text \<open>The body of the \<^verbatim>\<open>try\<close> block.\<close>

definition process_file_try ::
  "world \<Rightarrow> string \<Rightarrow> (string \<rightharpoonup> string) \<Rightarrow> string list \<Rightarrow> string list prog" where
  "process_file_try w md_file envs links =
     bind (open_read w md_file) (\<lambda>md.
     bind (find_page_by_title w (page_title_of md_file) envs) (\<lambda>page_info.
     bind (lift (subscript_str page_info ''current_version'')) (\<lambda>current_version.
     bind (if truthy current_version then lift (add_one current_version) else ret PNone)
       (\<lambda>new_version.
     bind (lift (subscript_str page_info ''page_id'')) (\<lambda>page_id.
       if truthy page_id
       then update_page w envs page_info new_version (page_title_of md_file)
              (render w md) links
       else create_page w envs (page_title_of md_file) (render w md) links)))))"

definition process_file ::
  "world \<Rightarrow> string \<Rightarrow> (string \<rightharpoonup> string) \<Rightarrow> string list \<Rightarrow> string list prog" where
  "process_file w md_file envs links =
     except_request (process_file_try w md_file envs links)
       (\<lambda>e. bind (emit (Print [Lit ''An error occurred during the HTTP request: '',
                     Lit (exn_str e)]))
              (\<lambda>_. raise (SystemExit 1)))"

section \<open>process_directory and main\<close>

text \<open>The inner loop, over the files of one directory.\<close>

fun process_files ::
  "world \<Rightarrow> (string \<rightharpoonup> string) \<Rightarrow> string list \<Rightarrow> string \<Rightarrow> string list \<Rightarrow> string list
     \<Rightarrow> string list prog" where
  "process_files w envs exclude_files root [] links = ret links"
| "process_files w envs exclude_files root (f # files) links =
     (if endswith f ''.md'' \<and> f \<notin> set exclude_files then
        bind (process_file w (path_join root f) envs links)
          (\<lambda>links'. process_files w envs exclude_files root files links')
      else process_files w envs exclude_files root files links)"

text \<open>The outer loop, over what \<^verbatim>\<open>os.walk\<close> yields.\<close>

fun process_walk ::
  "world \<Rightarrow> (string \<rightharpoonup> string) \<Rightarrow> string list \<Rightarrow> (string \<times> string list \<times> string list) list
     \<Rightarrow> string list \<Rightarrow> string list prog" where
  "process_walk w envs exclude_files [] links = ret links"
| "process_walk w envs exclude_files ((root, dirs, files) # rest) links =
     bind (process_files w envs exclude_files root files links)
       (\<lambda>links'. process_walk w envs exclude_files rest links')"

definition exclude_list :: "(string \<rightharpoonup> string) \<Rightarrow> string list" where
  "exclude_list envs =
     (case envs ''exclude_files'' of
        None \<Rightarrow> []
      | Some s \<Rightarrow> if s = [] then [] else split_on CHR '','' s)"

definition process_directory ::
  "world \<Rightarrow> (string \<rightharpoonup> string) \<Rightarrow> string list \<Rightarrow> string list prog" where
  "process_directory w envs links =
     bind (lift (item (environ w) ''GITHUB_WORKSPACE'')) (\<lambda>workspace.
     bind (lift (item envs ''input_md_directory'')) (\<lambda>d.
     bind (emit (Walk (path_join workspace d))) (\<lambda>_.
       process_walk w envs (exclude_list envs) (os_walk w (path_join workspace d)) links)))"

definition main :: "world \<Rightarrow> unit prog" where
  "main w =
     bind (load_environment_variables w) (\<lambda>envs.
     bind (if envs ''input_file'' \<noteq> None then
             bind (lift (item (environ w) ''GITHUB_WORKSPACE'')) (\<lambda>workspace.
             bind (lift (item envs ''input_file'')) (\<lambda>input_file.
               process_file w (path_join workspace input_file) envs []))
           else if envs ''input_md_directory'' \<noteq> None then process_directory w envs []
           else bind (emit (Print [Lit ''No specific input provided.'']))
                  (\<lambda>_. raise (SystemExit 1)))
       (\<lambda>links. emit (PrintLinks links)))"

section \<open>The configuration a successful load returns\<close>

definition loaded :: "world \<Rightarrow> (string \<rightharpoonup> string)" where
  "loaded w =
     copy_optional (environ w) ''exclude_files''
       (copy_optional (environ w) ''input_md_directory''
         (copy_optional (environ w) ''input_file''
           (\<lambda>k. if k \<in> set env_var_names then environ w k else None)))"

section \<open>Concrete runs\<close>

text \<open>
  An environment with every required setting and the workspace root, a one-line
  document, a renderer that wraps its input in a paragraph, and a few remote services.
\<close>

definition env_demo :: "string \<rightharpoonup> string" where
  "env_demo = map_of
     [(''cloud'', ''acme''), (''user'', ''bot''), (''token'', ''secret''),
      (''parent_page_id'', ''100''), (''space_id'', ''7''),
      (''GITHUB_WORKSPACE'', ''/ws'')]"

definition envs_demo :: "string \<rightharpoonup> string" where
  "envs_demo = map_of
     [(''cloud'', ''acme''), (''user'', ''bot''), (''token'', ''secret''),
      (''parent_page_id'', ''100''), (''space_id'', ''7''),
      (''input_file'', ''page.md'')]"

definition world_of ::
  "(string \<rightharpoonup> string) \<Rightarrow> (event list \<Rightarrow> request \<Rightarrow> string + response) \<Rightarrow> world" where
  "world_of env srv =
     \<lparr>environ = env,
      os_walk = (\<lambda>d. if d = ''/ws/docs''
                   then [(''/ws/docs'', [], [''a.md'', ''excluded.md'', ''notes.txt'', ''b.md''])]
                   else []),
      read_text = (\<lambda>_. Inr ''hello''),
      render = (\<lambda>md. ''<p>'' @ md @ ''</p>''),
      http = srv\<rparr>"

definition single_file :: "(event list \<Rightarrow> request \<Rightarrow> string + response) \<Rightarrow> world" where
  "single_file srv = world_of (env_demo(''input_file'' \<mapsto> ''page.md'')) srv"

definition directory ::
  "(event list \<Rightarrow> request \<Rightarrow> string + response) \<Rightarrow> world" where
  "directory srv =
     world_of (env_demo(''input_md_directory'' \<mapsto> ''docs'',
                        ''exclude_files'' \<mapsto> ''excluded.md'')) srv"

text \<open>A lookup answer with one match.\<close>

definition one_match :: "string \<Rightarrow> int \<Rightarrow> string \<Rightarrow> pyval" where
  "one_match page_id version_number stored =
     PDict [(''results'', PList [PDict
       [(''id'', PStr page_id),
        (''version'', PDict [(''number'', PInt version_number)]),
        (''body'', PDict [(''storage'', PStr stored)])]])]"

definition page_exists :: "string \<Rightarrow> event list \<Rightarrow> request \<Rightarrow> string + response" where
  "page_exists stored tr req =
     Inr \<lparr>status_code = 200, resp_json = Inr (one_match ''42'' 3 stored)\<rparr>"

definition no_page :: "event list \<Rightarrow> request \<Rightarrow> string + response" where
  "no_page tr req =
     Inr \<lparr>status_code = 200, resp_json = Inr (PDict [(''results'', PList [])])\<rparr>"

text \<open>A service that answers 404 to the lookup and would answer \<open>code\<close> to a write.\<close>

definition refuses :: "int \<Rightarrow> event list \<Rightarrow> request \<Rightarrow> string + response" where
  "refuses code tr req =
     (if meth req = GET
      then Inr \<lparr>status_code = 404, resp_json = Inl ''not json''\<rparr>
      else Inr \<lparr>status_code = code, resp_json = Inl ''not json''\<rparr>)"

definition unreachable :: "event list \<Rightarrow> request \<Rightarrow> string + response" where
  "unreachable tr req = Inl ''connection refused''"

section \<open>Running a program step by step\<close>

lemma bind_ret [simp]: "bind (ret x) f = f x"
  by (rule ext) (simp add: bind_def ret_def)

lemma bind_raise [simp]: "bind (raise e) f = raise e"
  by (rule ext) (simp add: bind_def raise_def)

lemma bind_lift_Inr [simp]: "bind (lift (Inr x)) f = f x"
  by (rule ext) (simp add: bind_def lift_def)

lemma bind_lift_Inl [simp]: "bind (lift (Inl e)) f = raise e"
  by (rule ext) (simp add: bind_def lift_def raise_def)

lemma bind_emit [simp]: "bind (emit ev) f tr = f () (tr @ [ev])"
  by (simp add: bind_def emit_def)

lemma bind_Inr:
  "bind m f tr = (Inr y, tr') \<longleftrightarrow> (\<exists>x tr1. m tr = (Inr x, tr1) \<and> f x tr1 = (Inr y, tr'))"
  by (auto simp: bind_def split: prod.splits sum.splits)

lemma bind_result_Inr: "m tr = (Inr x, tr1) \<Longrightarrow> bind m f tr = f x tr1"
  by (simp add: bind_def)

lemma bind_result_Inl: "m tr = (Inl e, tr1) \<Longrightarrow> bind m f tr = (Inl e, tr1)"
  by (simp add: bind_def)

text \<open>Unfolding everything evaluates a run in a concrete world.\<close>

lemmas run_defs =
  main_def load_environment_variables_def env_var_names_def copy_optional_def
  process_file_def process_file_try_def open_read_def find_page_by_title_def
  process_directory_def exclude_list_def except_request_def http_call_def json_def item_def
  single_file_def directory_def world_of_def env_demo_def envs_demo_def
  page_exists_def no_page_def refuses_def unreachable_def one_match_def
  path_join_def endswith_def
  ret_def raise_def lift_def bind_def emit_def

lemma title_page: "page_title_of ''/ws/page.md'' = ''page''"
  by (simp add: page_title_of_def basename_def splitext_root_def)

lemma title_a: "page_title_of ''/ws/docs/a.md'' = ''a''"
  by (simp add: page_title_of_def basename_def splitext_root_def)

section \<open>Loading the configuration\<close>

text \<open>
  A setting is missing when \<^verbatim>\<open>os.environ.get\<close> gives None or the empty string. The
  loop stops at the first such name of the list, in the list's order.
\<close>

lemma load_required_missing:
  "find (\<lambda>u. env u = None \<or> env u = Some []) vs = Some v \<Longrightarrow>
   load_required env vs envs tr =
     (Inl (SystemExit 1), tr @ [Print [Lit ''Missing value for '', Lit v]])"
  by (induction vs arbitrary: envs) (auto simp: raise_def split: option.splits)

lemma load_required_present:
  "find (\<lambda>u. env u = None \<or> env u = Some []) vs = None \<Longrightarrow>
   load_required env vs envs tr = (Inr (\<lambda>k. if k \<in> set vs then env k else envs k), tr)"
proof (induction vs arbitrary: envs)
  case Nil
  then show ?case by (simp add: ret_def)
next
  case (Cons v vs)
  from Cons.prems obtain s where s: "env v = Some s" "s \<noteq> []"
    and rest: "find (\<lambda>u. env u = None \<or> env u = Some []) vs = None"
    by (auto split: if_splits)
  have eq: "(\<lambda>k. if k \<in> set vs then env k else (envs(v \<mapsto> s)) k) =
        (\<lambda>k. if k \<in> set (v # vs) then env k else envs k)"
    using s by (auto simp: fun_eq_iff)
  have "load_required env (v # vs) envs tr = load_required env vs (envs(v \<mapsto> s)) tr"
    using s by simp
  also have "\<dots> = (Inr (\<lambda>k. if k \<in> set vs then env k else (envs(v \<mapsto> s)) k), tr)"
    by (rule Cons.IH [OF rest])
  finally show ?case
    by (simp only: eq)
qed

lemma load_environment_variables_present:
  assumes "find (\<lambda>u. environ w u = None \<or> environ w u = Some []) env_var_names = None"
  shows "load_environment_variables w tr = (Inr (loaded w), tr)"
  unfolding load_environment_variables_def loaded_def
  by (simp add: bind_result_Inr [OF load_required_present [OF assms]] ret_def)

lemma load_environment_variables_missing:
  assumes "find (\<lambda>u. environ w u = None \<or> environ w u = Some []) env_var_names = Some v"
  shows "load_environment_variables w tr =
     (Inl (SystemExit 1), tr @ [Print [Lit ''Missing value for '', Lit v]])"
  unfolding load_environment_variables_def
  by (simp add: bind_result_Inl [OF load_required_missing [OF assms]])

lemma loaded_optional:
  "loaded w ''input_file'' = environ w ''input_file''"
  "loaded w ''input_md_directory'' = environ w ''input_md_directory''"
  "loaded w ''exclude_files'' = environ w ''exclude_files''"
  by (simp_all add: loaded_def copy_optional_def env_var_names_def split: option.splits)

text \<open>
  \<^bold>\<open>C7.\<close> When at least one of the required settings (cloud, user, token,
  parent_page_id, space_id) is missing or empty, the run prints one line, the
  diagnostic naming the first missing setting of the list, and ends with exit status 1.
  The trace holds nothing else: no HTTP request was sent and no file was opened.
\<close>

theorem missing_setting_exits_before_any_call:
  assumes "v \<in> set env_var_names" and "environ w v = None \<or> environ w v = Some []"
  shows "\<exists>u. find (\<lambda>u. environ w u = None \<or> environ w u = Some []) env_var_names = Some u
           \<and> main w [] = (Inl (SystemExit 1), [Print [Lit ''Missing value for '', Lit u]])
           \<and> exit_code (fst (main w [])) = 1"
proof -
  from assms obtain u
    where u: "find (\<lambda>u. environ w u = None \<or> environ w u = Some []) env_var_names = Some u"
    by (cases "find (\<lambda>u. environ w u = None \<or> environ w u = Some []) env_var_names")
       (auto simp: find_None_iff)
  have "main w [] = (Inl (SystemExit 1), [Print [Lit ''Missing value for '', Lit u]])"
    unfolding main_def
    by (simp add: bind_result_Inl [OF load_environment_variables_missing [OF u]])
  with u show ?thesis by simp
qed

text \<open>With an empty token and no space_id, the diagnostic names the token.\<close>

theorem missing_setting_exits_before_any_call_witness:
  "main (world_of (env_demo(''token'' \<mapsto> [], ''space_id'' := None)) no_page) [] =
     (Inl (SystemExit 1), [Print [Lit ''Missing value for '', Lit ''token'']])"
  using missing_setting_exits_before_any_call
    [of "''token''" "world_of (env_demo(''token'' \<mapsto> [], ''space_id'' := None)) no_page"]
  by (simp add: world_of_def env_demo_def env_var_names_def)

text \<open>
  \<^bold>\<open>C10.\<close> \<^verbatim>\<open>load_environment_variables\<close> does not look at GITHUB_WORKSPACE. When
  the required settings are present, an input mode is configured and GITHUB_WORKSPACE
  is absent, loading succeeds without printing, and the run then ends in an uncaught
  \<^verbatim>\<open>KeyError\<close> for that name, with nothing printed: no Missing value
  diagnostic, and no \<^verbatim>\<open>sys.exit\<close>.
\<close>

theorem workspace_root_not_validated:
  assumes "find (\<lambda>u. environ w u = None \<or> environ w u = Some []) env_var_names = None"
    and "environ w ''input_file'' \<noteq> None \<or> environ w ''input_md_directory'' \<noteq> None"
    and "environ w ''GITHUB_WORKSPACE'' = None"
  shows "(\<exists>envs. load_environment_variables w [] = (Inr envs, []))
         \<and> main w [] = (Inl (KeyError (PStr ''GITHUB_WORKSPACE'')), [])"
proof -
  have "main w [] = (Inl (KeyError (PStr ''GITHUB_WORKSPACE'')), [])"
    unfolding main_def
    using assms(2,3)
    by (auto simp: bind_result_Inr [OF load_environment_variables_present [OF assms(1)]]
          loaded_optional item_def raise_def process_directory_def)
  then show ?thesis
    using load_environment_variables_present [OF assms(1)] by blast
qed

theorem workspace_root_not_validated_witness:
  "main (world_of (env_demo(''GITHUB_WORKSPACE'' := None, ''input_file'' \<mapsto> ''page.md''))
           no_page) [] =
     (Inl (KeyError (PStr ''GITHUB_WORKSPACE'')), [])
   \<and> main (world_of (env_demo(''GITHUB_WORKSPACE'' := None, ''input_md_directory'' \<mapsto> ''docs''))
           no_page) [] =
     (Inl (KeyError (PStr ''GITHUB_WORKSPACE'')), [])"
  using workspace_root_not_validated
    [of "world_of (env_demo(''GITHUB_WORKSPACE'' := None, ''input_file'' \<mapsto> ''page.md''))
           no_page"]
    workspace_root_not_validated
    [of "world_of (env_demo(''GITHUB_WORKSPACE'' := None, ''input_md_directory'' \<mapsto> ''docs''))
           no_page"]
  by (simp add: world_of_def env_demo_def env_var_names_def)

section \<open>The lookup and what process_file does with it\<close>

text \<open>
  Whenever \<^verbatim>\<open>find_page_by_title\<close> returns, it returns a tuple, and it has sent
  exactly the lookup request.
\<close>

lemma find_page_by_title_tuple:
  assumes "find_page_by_title w t envs tr = (Inr v, tr')"
  shows "(\<exists>a b c. v = PTuple [a, b, c]) \<or> v = PTuple [PNone, PNone]"
  using assms
  unfolding find_page_by_title_def
  by (auto simp: bind_Inr ret_def split: if_splits)

lemma find_page_by_title_cases:
  "(\<exists>k. find_page_by_title w t envs tr = (Inl (KeyError k), tr))
   \<or> (\<exists>req m. find_page_by_title w t envs tr = (Inl (RequestException m), tr @ [Http req])
        \<and> http w tr req = Inl m)
   \<or> (\<exists>req resp r. find_page_by_title w t envs tr = (r, tr @ [Http req])
        \<and> http w tr req = Inr resp)"
  unfolding find_page_by_title_def item_def
  by (auto simp: bind_def lift_def ret_def raise_def http_call_def json_def
        split: option.splits sum.splits prod.splits)

lemma process_file_try_cases:
  "(\<exists>e. \<not> is_request_exception e
        \<and> process_file_try w f envs links tr = (Inl e, tr @ [ReadFile f]))
   \<or> (\<exists>req m. process_file_try w f envs links tr =
          (Inl (RequestException m), tr @ [ReadFile f, Http req])
        \<and> http w (tr @ [ReadFile f]) req = Inl m)
   \<or> (\<exists>req resp e. process_file_try w f envs links tr = (Inl e, tr @ [ReadFile f, Http req])
        \<and> http w (tr @ [ReadFile f]) req = Inr resp)"
proof (cases "read_text w f")
  case (Inl a)
  then obtain e where "open_read w f tr = (Inl e, tr @ [ReadFile f])"
    and "\<not> is_request_exception e"
    by (cases a) (simp_all add: open_read_def raise_def)
  then show ?thesis
    unfolding process_file_try_def by (simp add: bind_result_Inl [where m = "open_read w f"])
next
  case (Inr md)
  then have start: "open_read w f tr = (Inr md, tr @ [ReadFile f])"
    by (simp add: open_read_def ret_def)
  let ?tr = "tr @ [ReadFile f]"
  let ?rest = "\<lambda>page_info.
     bind (lift (subscript_str page_info ''current_version'')) (\<lambda>current_version.
     bind (if truthy current_version then lift (add_one current_version) else ret PNone)
       (\<lambda>new_version.
     bind (lift (subscript_str page_info ''page_id'')) (\<lambda>page_id.
       if truthy page_id
       then update_page w envs page_info new_version (page_title_of f) (render w md) links
       else create_page w envs (page_title_of f) (render w md) links)))"
  have run: "process_file_try w f envs links tr =
      bind (find_page_by_title w (page_title_of f) envs) ?rest ?tr"
    unfolding process_file_try_def by (simp add: bind_result_Inr [where m = "open_read w f", OF start])
  consider
    (key) k where "find_page_by_title w (page_title_of f) envs ?tr = (Inl (KeyError k), ?tr)"
  | (fail) req m where
      "find_page_by_title w (page_title_of f) envs ?tr =
         (Inl (RequestException m), ?tr @ [Http req])" "http w ?tr req = Inl m"
  | (answer) req resp r where
      "find_page_by_title w (page_title_of f) envs ?tr = (r, ?tr @ [Http req])"
      "http w ?tr req = Inr resp"
    using find_page_by_title_cases [of w "page_title_of f" envs ?tr] by blast
  then show ?thesis
  proof cases
    case key
    then show ?thesis
      by (simp add: run bind_result_Inl [where m = "find_page_by_title w (page_title_of f) envs", OF key])
  next
    case fail
    then show ?thesis
      by (simp add: run bind_result_Inl [where m = "find_page_by_title w (page_title_of f) envs", OF fail(1)])
  next
    case answer
    show ?thesis
    proof (cases r)
      case (Inl e)
      with answer show ?thesis
        by (simp add: run bind_result_Inl [where m = "find_page_by_title w (page_title_of f) envs" and e = e])
    next
      case (Inr page_info)
      with answer(1) obtain xs where "page_info = PTuple xs"
        using find_page_by_title_tuple by blast
      with answer Inr show ?thesis
        by (simp add: run bind_result_Inr [where m = "find_page_by_title w (page_title_of f) envs" and x = page_info] raise_def)
    qed
  qed
qed

lemma process_file_cases:
  "(\<exists>e. process_file w f envs links tr = (Inl e, tr @ [ReadFile f]))
   \<or> (\<exists>req m. process_file w f envs links tr =
          (Inl (SystemExit 1), tr @ [ReadFile f, Http req,
             Print [Lit ''An error occurred during the HTTP request: '', Lit m]])
        \<and> http w (tr @ [ReadFile f]) req = Inl m)
   \<or> (\<exists>req resp e. http w (tr @ [ReadFile f]) req = Inr resp
        \<and> (process_file w f envs links tr = (Inl e, tr @ [ReadFile f, Http req])
           \<or> (\<exists>p. process_file w f envs links tr =
                 (Inl e, tr @ [ReadFile f, Http req, Print p]))))"
  using process_file_try_cases [of w f envs links tr]
  unfolding process_file_def except_request_def
  by (auto simp: raise_def)

lemma process_file_raises:
  "\<exists>e tr'. process_file w f envs links tr = (Inl e, tr')"
  using process_file_cases [of w f envs links tr] by blast

lemma find_page_by_title_trace:
  assumes "find_page_by_title w t envs tr = (Inr v, tr')"
  shows "\<exists>cloud user token. tr' = tr @ [Http (lookup_request cloud user token t)]"
  using assms
  unfolding find_page_by_title_def item_def
  by (auto simp: bind_def lift_def ret_def raise_def http_call_def json_def
        split: option.splits sum.splits prod.splits if_splits)

text \<open>
  \<^bold>\<open>C4.\<close> For a document that can be read and whose title lookup returns, the value
  returned is a plain tuple (three components when a page was found, \<open>(None, None)\<close>
  otherwise), subscripting it with the key \<^verbatim>\<open>'current_version'\<close> raises
  \<^verbatim>\<open>TypeError\<close>, and \<^verbatim>\<open>process_file\<close> ends in that uncaught
  \<^verbatim>\<open>TypeError\<close> right after the lookup: the file was opened, the lookup request was
  sent, and nothing else happened, so neither the create branch, nor the update branch,
  nor the identical-content branch was reached.
\<close>

theorem lookup_result_subscript_raises:
  assumes "read_text w md_file = Inr md"
    and "find_page_by_title w (page_title_of md_file) envs (tr @ [ReadFile md_file]) =
           (Inr page_info, tr')"
  shows "((\<exists>a b c. page_info = PTuple [a, b, c]) \<or> page_info = PTuple [PNone, PNone])
         \<and> subscript_str page_info ''current_version'' = Inl TypeError
         \<and> process_file w md_file envs links tr = (Inl TypeError, tr')
         \<and> (\<exists>cloud user token. tr' =
               tr @ [ReadFile md_file, Http (lookup_request cloud user token (page_title_of md_file))])"
proof -
  have shape: "(\<exists>a b c. page_info = PTuple [a, b, c]) \<or> page_info = PTuple [PNone, PNone]"
    using assms(2) by (rule find_page_by_title_tuple)
  then have sub: "subscript_str page_info ''current_version'' = Inl TypeError"
    by auto
  have start: "open_read w md_file tr = (Inr md, tr @ [ReadFile md_file])"
    using assms(1) by (simp add: open_read_def ret_def)
  have "process_file_try w md_file envs links tr = (Inl TypeError, tr')"
    unfolding process_file_try_def
    by (simp add: bind_result_Inr [where m = "open_read w md_file", OF start]
          bind_result_Inr [where m = "find_page_by_title w (page_title_of md_file) envs",
            OF assms(2)] sub raise_def)
  then have run: "process_file w md_file envs links tr = (Inl TypeError, tr')"
    by (simp add: process_file_def except_request_def)
  from find_page_by_title_trace [OF assms(2)] shape sub run show ?thesis
    by auto
qed

theorem lookup_result_subscript_raises_witness:
  "read_text (single_file (page_exists ''<p>new</p>'')) ''/ws/page.md'' = Inr ''hello''
   \<and> process_file (single_file (page_exists ''<p>new</p>'')) ''/ws/page.md'' envs_demo [] [] =
       (Inl TypeError,
        [ReadFile ''/ws/page.md'', Http (lookup_request ''acme'' ''bot'' ''secret'' ''page'')])"
  using lookup_result_subscript_raises
    [of "single_file (page_exists ''<p>new</p>'')" "''/ws/page.md''" "''hello''" envs_demo "[]"
        "PTuple [PStr ''42'', PInt 3, PStr ''<p>new</p>'']"
        "[ReadFile ''/ws/page.md'', Http (lookup_request ''acme'' ''bot'' ''secret'' ''page'')]"
        "[]"]
  by (simp add: title_page find_page_by_title_def http_call_def json_def item_def
        single_file_def world_of_def envs_demo_def page_exists_def one_match_def
        ret_def bind_def lift_def)

section \<open>Directory walks and whole runs\<close>

text \<open>
  A walk either processes no file and returns the list of links it was given, or ends
  with the exception of the first file it processes.
\<close>

lemma process_files_cases:
  "process_files w envs ex root files links tr = (Inr links, tr)
   \<or> (\<exists>f e evs. process_files w envs ex root files links tr = (Inl e, tr @ evs)
          \<and> process_file w f envs links tr = (Inl e, tr @ evs))"
proof (induction files)
  case Nil
  then show ?case by (simp add: ret_def)
next
  case (Cons f files)
  show ?case
  proof (cases "endswith f ''.md'' \<and> f \<notin> set ex")
    case True
    obtain e tr' where r: "process_file w (path_join root f) envs links tr = (Inl e, tr')"
      using process_file_raises by blast
    moreover obtain evs where "tr' = tr @ evs"
      using process_file_cases [of w "path_join root f" envs links tr] r by auto
    ultimately show ?thesis
      using True
      by (auto simp: bind_result_Inl [where m = "process_file w (path_join root f) envs links"])
  next
    case False
    with Cons.IH show ?thesis by auto
  qed
qed

lemma process_walk_cases:
  "process_walk w envs ex entries links tr = (Inr links, tr)
   \<or> (\<exists>f e evs. process_walk w envs ex entries links tr = (Inl e, tr @ evs)
          \<and> process_file w f envs links tr = (Inl e, tr @ evs))"
proof (induction entries)
  case Nil
  then show ?case by (simp add: ret_def)
next
  case (Cons entry entries)
  obtain root dirs files where entry: "entry = (root, dirs, files)"
    by (cases entry) auto
  from process_files_cases [of w envs ex root files links tr] show ?case
  proof
    assume "process_files w envs ex root files links tr = (Inr links, tr)"
    with Cons.IH show ?thesis
      by (simp add: entry bind_result_Inr [where m = "process_files w envs ex root files links"])
  next
    assume "\<exists>f e evs. process_files w envs ex root files links tr = (Inl e, tr @ evs)
          \<and> process_file w f envs links tr = (Inl e, tr @ evs)"
    then show ?thesis
      by (auto simp: entry bind_result_Inl [where m = "process_files w envs ex root files links"])
  qed
qed

lemma load_environment_variables_Inr:
  assumes "load_environment_variables w tr = (Inr envs, tr')"
  shows "find (\<lambda>u. environ w u = None \<or> environ w u = Some []) env_var_names = None
         \<and> envs = loaded w \<and> tr' = tr"
proof (cases "find (\<lambda>u. environ w u = None \<or> environ w u = Some []) env_var_names")
  case None
  with assms load_environment_variables_present [OF None, of tr] show ?thesis by simp
next
  case (Some v)
  with assms load_environment_variables_missing [OF Some, of tr] show ?thesis by simp
qed

lemma main_loaded:
  assumes "load_environment_variables w [] = (Inr envs, [])"
  shows "main w [] =
      bind (if envs ''input_file'' \<noteq> None then
             bind (lift (item (environ w) ''GITHUB_WORKSPACE'')) (\<lambda>workspace.
             bind (lift (item envs ''input_file'')) (\<lambda>input_file.
               process_file w (path_join workspace input_file) envs []))
           else if envs ''input_md_directory'' \<noteq> None then process_directory w envs []
           else bind (emit (Print [Lit ''No specific input provided.'']))
                  (\<lambda>_. raise (SystemExit 1)))
       (\<lambda>links. emit (PrintLinks links)) []"
  unfolding main_def
  by (simp add: bind_result_Inr [where m = "load_environment_variables w", OF assms])

text \<open>
  A run either sends no HTTP request at all, or is the run of \<^verbatim>\<open>process_file\<close> on
  the first document, started on an empty trace or right after the walk began.
\<close>

lemma main_cases:
  "(\<exists>r evs. main w [] = (r, evs) \<and> (\<forall>req. Http req \<notin> set evs))
   \<or> (\<exists>f envs pre e evs. main w [] = (Inl e, evs)
         \<and> process_file w f envs [] pre = (Inl e, evs)
         \<and> (pre = [] \<or> (\<exists>d. pre = [Walk d])))"
proof (cases "find (\<lambda>u. environ w u = None \<or> environ w u = Some []) env_var_names")
  case (Some v)
  have "main w [] = (Inl (SystemExit 1), [Print [Lit ''Missing value for '', Lit v]])"
    unfolding main_def
    by (simp add: bind_result_Inl [OF load_environment_variables_missing [OF Some]])
  then show ?thesis by simp
next
  case None
  note load = load_environment_variables_present [OF None, of "[]"]
  show ?thesis
  proof (cases "environ w ''GITHUB_WORKSPACE''")
    case nows: None
    have "\<exists>r p. main w [] = (r, []) \<or> main w [] = (r, [Print p])"
      unfolding main_loaded [OF load]
      by (auto simp: loaded_optional item_def raise_def process_directory_def nows
            emit_def bind_def lift_def)
    then show ?thesis by auto
  next
    case (Some ws)
    show ?thesis
    proof (cases "environ w ''input_file''")
      case (Some f)
      obtain e evs where r: "process_file w (path_join ws f) (loaded w) [] [] = (Inl e, evs)"
        using process_file_raises by blast
      have "main w [] = (Inl e, evs)"
        unfolding main_loaded [OF load]
        by (simp add: loaded_optional item_def \<open>environ w ''GITHUB_WORKSPACE'' = Some ws\<close> Some
            bind_result_Inl [where m = "process_file w (path_join ws f) (loaded w) []", OF r])
      with r show ?thesis by blast
    next
      case nofile: None
      show ?thesis
      proof (cases "environ w ''input_md_directory''")
        case None
        then have "main w [] =
            (Inl (SystemExit 1), [Print [Lit ''No specific input provided.'']])"
          unfolding main_loaded [OF load]
          by (simp add: loaded_optional nofile raise_def bind_def emit_def)
        then show ?thesis by simp
      next
        case (Some d)
        let ?walk = "process_walk w (loaded w) (exclude_list (loaded w))
                       (os_walk w (path_join ws d)) []"
        have run: "main w [] =
            bind ?walk (\<lambda>links. emit (PrintLinks links)) [Walk (path_join ws d)]"
          unfolding main_loaded [OF load] process_directory_def
          by (simp add: loaded_optional nofile Some item_def
              \<open>environ w ''GITHUB_WORKSPACE'' = Some ws\<close> bind_def emit_def lift_def)
        from process_walk_cases [of w "loaded w" "exclude_list (loaded w)"
            "os_walk w (path_join ws d)" "[]" "[Walk (path_join ws d)]"]
        show ?thesis
        proof
          assume "?walk [Walk (path_join ws d)] = (Inr [], [Walk (path_join ws d)])"
          then have "main w [] = (Inr (), [Walk (path_join ws d), PrintLinks []])"
            by (simp add: run bind_result_Inr [where m = ?walk] emit_def)
          then show ?thesis by simp
        next
          assume "\<exists>f e evs. ?walk [Walk (path_join ws d)] = (Inl e, [Walk (path_join ws d)] @ evs)
              \<and> process_file w f (loaded w) [] [Walk (path_join ws d)] =
                  (Inl e, [Walk (path_join ws d)] @ evs)"
          then obtain f e evs where
            "?walk [Walk (path_join ws d)] = (Inl e, [Walk (path_join ws d)] @ evs)"
            "process_file w f (loaded w) [] [Walk (path_join ws d)] =
                  (Inl e, [Walk (path_join ws d)] @ evs)"
            by blast
          then show ?thesis
            by (auto simp: run bind_result_Inl [where m = ?walk])
        qed
      qed
    qed
  qed
qed

text \<open>
  \<^bold>\<open>C9.\<close> Once the configuration is loaded, the optional settings select the input
  mode. When input_file is set, whether or not input_md_directory is set too, the run is
  the workspace lookup followed by \<^verbatim>\<open>process_file\<close> on that one file. When only
  input_md_directory is set, the run is \<^verbatim>\<open>process_directory\<close>. When neither is
  set, the run prints one line and ends with exit status 1, without opening a file or
  sending a request.
\<close>

theorem input_mode_selection:
  assumes "load_environment_variables w [] = (Inr envs, [])"
  shows "(case (environ w ''input_file'', environ w ''input_md_directory'') of
            (Some input_file, _) \<Rightarrow>
              main w [] =
                bind (bind (lift (item (environ w) ''GITHUB_WORKSPACE''))
                        (\<lambda>workspace. process_file w (path_join workspace input_file) envs []))
                  (\<lambda>links. emit (PrintLinks links)) []
          | (None, Some d) \<Rightarrow>
              main w [] =
                bind (process_directory w envs []) (\<lambda>links. emit (PrintLinks links)) []
          | (None, None) \<Rightarrow>
              main w [] = (Inl (SystemExit 1), [Print [Lit ''No specific input provided.'']]))"
proof -
  from load_environment_variables_Inr [OF assms]
  have envs: "envs = loaded w" by simp
  note start = main_loaded [OF assms]
  show ?thesis
    unfolding start
    by (auto simp: envs loaded_optional item_def raise_def bind_def emit_def lift_def
          split: option.splits)
qed

theorem input_mode_selection_witness:
  "main (world_of (env_demo(''input_file'' \<mapsto> ''page.md'', ''input_md_directory'' \<mapsto> ''docs''))
           no_page) [] =
     (Inl TypeError,
      [ReadFile ''/ws/page.md'', Http (lookup_request ''acme'' ''bot'' ''secret'' ''page'')])
   \<and> main (world_of (env_demo(''input_md_directory'' \<mapsto> ''docs'')) no_page) [] =
     (Inl TypeError,
      [Walk ''/ws/docs'', ReadFile ''/ws/docs/a.md'',
       Http (lookup_request ''acme'' ''bot'' ''secret'' ''a'')])
   \<and> main (world_of env_demo no_page) [] =
     (Inl (SystemExit 1), [Print [Lit ''No specific input provided.'']])"
proof -
  let ?single = "world_of (env_demo(''input_file'' \<mapsto> ''page.md'',
                   ''input_md_directory'' \<mapsto> ''docs'')) no_page"
  let ?dir = "world_of (env_demo(''input_md_directory'' \<mapsto> ''docs'')) no_page"
  let ?neither = "world_of env_demo no_page"
  have single: "load_environment_variables ?single [] = (Inr (loaded ?single), [])"
    by (rule load_environment_variables_present)
       (simp add: world_of_def env_demo_def env_var_names_def)
  have dir: "load_environment_variables ?dir [] = (Inr (loaded ?dir), [])"
    by (rule load_environment_variables_present)
       (simp add: world_of_def env_demo_def env_var_names_def)
  have neither: "load_environment_variables ?neither [] = (Inr (loaded ?neither), [])"
    by (rule load_environment_variables_present)
       (simp add: world_of_def env_demo_def env_var_names_def)
  have 1: "main ?single [] =
     (Inl TypeError,
      [ReadFile ''/ws/page.md'', Http (lookup_request ''acme'' ''bot'' ''secret'' ''page'')])"
    using input_mode_selection [OF single]
    by (simp add: loaded_def title_page
          copy_optional_def env_var_names_def
          process_file_def process_file_try_def open_read_def find_page_by_title_def
          except_request_def http_call_def json_def item_def
          world_of_def env_demo_def no_page_def path_join_def
          ret_def raise_def lift_def bind_def emit_def)
  have 2: "main ?dir [] =
     (Inl TypeError,
      [Walk ''/ws/docs'', ReadFile ''/ws/docs/a.md'',
       Http (lookup_request ''acme'' ''bot'' ''secret'' ''a'')])"
    using input_mode_selection [OF dir]
    by (simp add: loaded_def title_a
          copy_optional_def env_var_names_def
          process_file_def process_file_try_def open_read_def find_page_by_title_def
          process_directory_def exclude_list_def
          except_request_def http_call_def json_def item_def
          world_of_def env_demo_def no_page_def path_join_def endswith_def
          ret_def raise_def lift_def bind_def emit_def)
  have 3: "main ?neither [] =
     (Inl (SystemExit 1), [Print [Lit ''No specific input provided.'']])"
    using input_mode_selection [OF neither]
    by (simp add: world_of_def env_demo_def)
  from 1 2 3 show ?thesis by simp
qed

text \<open>
  \<^bold>\<open>C5.\<close> In every run, when an HTTP request meets a transport failure (the service
  answers the request, sent after the events \<open>pre\<close>, with a
  \<^verbatim>\<open>RequestException\<close>), the process ends through \<^verbatim>\<open>sys.exit(1)\<close>. After the
  failed request the trace holds the error line and nothing more: no further file is
  opened, no further request is sent, and the list of links is never printed.
\<close>

theorem transport_failure_is_fatal:
  assumes "main w [] = (r, tr)"
    and "tr = pre @ Http req # post"
    and "http w pre req = Inl m"
  shows "r = Inl (SystemExit 1) \<and> exit_code r = 1
         \<and> post = [Print [Lit ''An error occurred during the HTTP request: '', Lit m]]
         \<and> PrintLinks ls \<notin> set tr"
proof -
  from main_cases [of w] assms(1,2) obtain f envs pre0 e
    where run: "process_file w f envs [] pre0 = (Inl e, tr)" "r = Inl e"
      and pre0: "pre0 = [] \<or> (\<exists>d. pre0 = [Walk d])"
    by auto
  from process_file_cases [of w f envs "[]" pre0] run(1) assms(2,3) pre0
  have "e = SystemExit 1
      \<and> post = [Print [Lit ''An error occurred during the HTTP request: '', Lit m]]
      \<and> pre = pre0 @ [ReadFile f]"
    by (auto simp: Cons_eq_append_conv append_eq_Cons_conv append_eq_append_conv2)
  with run(2) pre0 assms(2) show ?thesis
    by auto
qed

theorem transport_failure_is_fatal_witness:
  "main (directory unreachable) [] =
     (Inl (SystemExit 1),
      [Walk ''/ws/docs'', ReadFile ''/ws/docs/a.md'',
       Http (lookup_request ''acme'' ''bot'' ''secret'' ''a''),
       Print [Lit ''An error occurred during the HTTP request: '', Lit ''connection refused'']])
   \<and> exit_code (fst (main (directory unreachable) [])) = 1"
proof -
  have run: "main (directory unreachable) [] =
     (Inl (SystemExit 1),
      [Walk ''/ws/docs'', ReadFile ''/ws/docs/a.md''] @
       Http (lookup_request ''acme'' ''bot'' ''secret'' ''a'') #
       [Print [Lit ''An error occurred during the HTTP request: '', Lit ''connection refused'']])"
    by (simp add: run_defs title_a)
  have "http (directory unreachable) [Walk ''/ws/docs'', ReadFile ''/ws/docs/a.md'']
          (lookup_request ''acme'' ''bot'' ''secret'' ''a'') = Inl ''connection refused''"
    by (simp add: directory_def world_of_def unreachable_def)
  from transport_failure_is_fatal [OF run refl this] run show ?thesis
    by simp
qed

section \<open>A write that the service refuses\<close>



section \<open>Runs that stop at the lookup result\<close>

text \<open>
  \<^bold>\<open>C1.\<close> A document whose rendered HTML is string-equal to the stored content of
  the remote page of the same title should cause no write and the report that no update
  is required. In this run the lookup returns the page with exactly the rendered HTML as
  its content, and the run ends in an uncaught \<^verbatim>\<open>TypeError\<close> right after the
  lookup: no write request is sent, and no line is printed at all.
\<close>

theorem identical_content_run:
  "find_page_by_title (single_file (page_exists ''<p>hello</p>'')) ''page''
       (loaded (single_file (page_exists ''<p>hello</p>''))) [ReadFile ''/ws/page.md''] =
     (Inr (PTuple [PStr ''42'', PInt 3,
                   PStr (render (single_file (page_exists ''<p>hello</p>'')) ''hello'')]),
      [ReadFile ''/ws/page.md'', Http (lookup_request ''acme'' ''bot'' ''secret'' ''page'')])
   \<and> main (single_file (page_exists ''<p>hello</p>'')) [] =
     (Inl TypeError,
      [ReadFile ''/ws/page.md'', Http (lookup_request ''acme'' ''bot'' ''secret'' ''page'')])"
  by (simp add: run_defs loaded_def title_page)

text \<open>
  \<^bold>\<open>C2.\<close> A document with a remote page whose stored content differs from the
  rendered HTML should cause exactly one update request, with the version number of the
  page plus one and the representation tag storage. In this run the lookup returns the
  page at version 3 with other content, and the run ends in an uncaught
  \<^verbatim>\<open>TypeError\<close> right after the lookup: the only request sent is the lookup, so no
  update request is sent.
\<close>

theorem changed_content_run:
  "find_page_by_title (single_file (page_exists ''<p>old</p>'')) ''page''
       (loaded (single_file (page_exists ''<p>old</p>''))) [ReadFile ''/ws/page.md''] =
     (Inr (PTuple [PStr ''42'', PInt 3, PStr ''<p>old</p>'']),
      [ReadFile ''/ws/page.md'', Http (lookup_request ''acme'' ''bot'' ''secret'' ''page'')])
   \<and> render (single_file (page_exists ''<p>old</p>'')) ''hello'' \<noteq> ''<p>old</p>''
   \<and> main (single_file (page_exists ''<p>old</p>'')) [] =
     (Inl TypeError,
      [ReadFile ''/ws/page.md'', Http (lookup_request ''acme'' ''bot'' ''secret'' ''page'')])"
  by (simp add: run_defs loaded_def title_page)

text \<open>
  \<^bold>\<open>C3.\<close> A document whose lookup answers 200 with an empty list of matches, or
  answers with another status, should be treated as new and cause exactly one create
  request, the miss not being fatal. In both runs below the lookup returns
  \<open>(None, None)\<close> and the run ends in an uncaught \<^verbatim>\<open>TypeError\<close> right after it:
  the only request sent is the lookup, so no create request is sent, and the process
  ends with exit status 1.
\<close>

theorem missing_page_run:
  "find_page_by_title (single_file no_page) ''page'' (loaded (single_file no_page))
       [ReadFile ''/ws/page.md''] =
     (Inr (PTuple [PNone, PNone]),
      [ReadFile ''/ws/page.md'', Http (lookup_request ''acme'' ''bot'' ''secret'' ''page'')])
   \<and> main (single_file no_page) [] =
     (Inl TypeError,
      [ReadFile ''/ws/page.md'', Http (lookup_request ''acme'' ''bot'' ''secret'' ''page'')])
   \<and> find_page_by_title (single_file (refuses 200)) ''page''
       (loaded (single_file (refuses 200))) [ReadFile ''/ws/page.md''] =
     (Inr (PTuple [PNone, PNone]),
      [ReadFile ''/ws/page.md'', Http (lookup_request ''acme'' ''bot'' ''secret'' ''page'')])
   \<and> main (single_file (refuses 200)) [] =
     (Inl TypeError,
      [ReadFile ''/ws/page.md'', Http (lookup_request ''acme'' ''bot'' ''secret'' ''page'')])
   \<and> exit_code (fst (main (single_file no_page) [])) = 1"
  by (simp add: run_defs loaded_def title_page lookup_request_def)

text \<open>
  \<^bold>\<open>C8.\<close> In directory mode every file whose name ends in \<^verbatim>\<open>.md\<close> and is not in
  the exclusion list should be processed exactly once. In this run the directory holds
  \<^verbatim>\<open>a.md\<close>, \<^verbatim>\<open>excluded.md\<close> (excluded), \<^verbatim>\<open>notes.txt\<close> and \<^verbatim>\<open>b.md\<close>; the walk
  opens \<^verbatim>\<open>a.md\<close>, and the run ends in the uncaught \<^verbatim>\<open>TypeError\<close> of that first
  document, so \<^verbatim>\<open>b.md\<close>, which ends in \<^verbatim>\<open>.md\<close> and is not excluded, is never
  opened.
\<close>

theorem directory_run_stops_at_first_file:
  "os_walk (directory no_page) ''/ws/docs'' =
     [(''/ws/docs'', [], [''a.md'', ''excluded.md'', ''notes.txt'', ''b.md''])]
   \<and> exclude_list (loaded (directory no_page)) = [''excluded.md'']
   \<and> endswith ''b.md'' ''.md''
   \<and> main (directory no_page) [] =
     (Inl TypeError,
      [Walk ''/ws/docs'', ReadFile ''/ws/docs/a.md'',
       Http (lookup_request ''acme'' ''bot'' ''secret'' ''a'')])"
  by (simp add: run_defs loaded_def title_a)

end
